theory Spec2Isabelle
  imports Main "HOL-Library.Sublist"
begin

section \<open>Python values\<close>

text \<open>
  The trafficking engine and the QA engine take dictionaries of type \<open>Dict[str, Any]\<close>.
  The values that can sit in such a dictionary are modelled by \<open>pyval\<close>: \<open>None\<close>,
  booleans, unbounded integers, strings and lists of values. Floating-point numbers are
  left out. The operations the two engines apply to these values (\<open>in\<close>, \<open>not\<close>,
  \<open>startswith\<close>, \<open>count\<close>, f-string formatting) are defined on every value, and raise
  where Python raises.
\<close>

datatype pyval = PNone | PBool bool | PInt int | PStr string | PList "pyval list"

datatype error = TypeError | AttributeError

type_synonym pydict = "string \<rightharpoonup> pyval"

text \<open>\<open>d.get(k, default)\<close>\<close>

definition dict_get :: "pydict \<Rightarrow> string \<Rightarrow> pyval \<Rightarrow> pyval" where
  "dict_get d k dflt = (case d k of None \<Rightarrow> dflt | Some v \<Rightarrow> v)"

text \<open>Truth value of an object, as \<open>not geo\<close> and \<open>if payloads\<close> test it.\<close>

fun py_truthy :: "pyval \<Rightarrow> bool" where
  "py_truthy PNone = False"
| "py_truthy (PBool b) = b"
| "py_truthy (PInt i) = (i \<noteq> 0)"
| "py_truthy (PStr s) = (s \<noteq> [])"
| "py_truthy (PList xs) = (xs \<noteq> [])"

text \<open>\<open>needle in s\<close> for two strings: \<open>needle\<close> occurs in \<open>s\<close> as a contiguous block.\<close>

fun str_contains :: "string \<Rightarrow> string \<Rightarrow> bool" where
  "str_contains needle [] = (needle = [])"
| "str_contains needle (c # cs) = (prefix needle (c # cs) \<or> str_contains needle cs)"

text \<open>
  \<open>needle in v\<close> with a string literal on the left: substring test on a string,
  membership on a list, \<open>TypeError\<close> on \<open>None\<close>, a boolean or an integer.
\<close>

fun py_in :: "string \<Rightarrow> pyval \<Rightarrow> error + bool" where
  "py_in needle (PStr s) = Inr (str_contains needle s)"
| "py_in needle (PList xs) = Inr (PStr needle \<in> set xs)"
| "py_in needle PNone = Inl TypeError"
| "py_in needle (PBool b) = Inl TypeError"
| "py_in needle (PInt i) = Inl TypeError"

text \<open>\<open>a or b\<close> on two tests that may raise: \<open>b\<close> is evaluated only when \<open>a\<close> is false.\<close>

definition py_or :: "error + bool \<Rightarrow> error + bool \<Rightarrow> error + bool" where
  "py_or a b = (case a of Inl e \<Rightarrow> Inl e | Inr True \<Rightarrow> Inr True | Inr False \<Rightarrow> b)"

text \<open>\<open>v.startswith(p)\<close>: only strings have the method.\<close>

fun py_startswith :: "pyval \<Rightarrow> string \<Rightarrow> error + bool" where
  "py_startswith (PStr s) p = Inr (prefix p s)"
| "py_startswith (PList xs) p = Inl AttributeError"
| "py_startswith PNone p = Inl AttributeError"
| "py_startswith (PBool b) p = Inl AttributeError"
| "py_startswith (PInt i) p = Inl AttributeError"

text \<open>
  \<open>v.count(c)\<close> for a one-character string \<open>c\<close>: the occurrences of the character in a
  string, the elements equal to the string \<open>c\<close> in a list; the other values have no
  such method.
\<close>

fun py_count :: "pyval \<Rightarrow> char \<Rightarrow> error + nat" where
  "py_count (PStr s) c = Inr (count_list s c)"
| "py_count (PList xs) c = Inr (count_list xs (PStr [c]))"
| "py_count PNone c = Inl AttributeError"
| "py_count (PBool b) c = Inl AttributeError"
| "py_count (PInt i) c = Inl AttributeError"

subsection \<open>Formatting\<close>

text \<open>\<open>sep.join(xs)\<close>\<close>

fun join :: "string \<Rightarrow> string list \<Rightarrow> string" where
  "join sep [] = []"
| "join sep [x] = x"
| "join sep (x # y # ys) = x @ sep @ join sep (y # ys)"

definition digit_char :: "nat \<Rightarrow> char" where
  "digit_char d = ''0123456789abcdef'' ! d"

fun string_of_nat :: "nat \<Rightarrow> string" where
  "string_of_nat n =
     (if n < 10 then [digit_char n] else string_of_nat (n div 10) @ [digit_char (n mod 10)])"

definition string_of_int :: "int \<Rightarrow> string" where
  "string_of_int i = (if i < 0 then CHR ''-'' # string_of_nat (nat (- i)) else string_of_nat (nat i))"

text \<open>
  \<open>repr\<close> of a string whose characters are code points below 256: single quotes unless
  the string has a single quote and no double quote; the backslash and the chosen quote
  are escaped, tab, newline and carriage return have their letters, and every other
  character that is not printable is written \<open>\xNN\<close>.
\<close>

definition printable :: "char \<Rightarrow> bool" where
  "printable c = (let n = (of_char c :: nat) in (32 \<le> n \<and> n < 127) \<or> (161 \<le> n \<and> n \<noteq> 173))"

definition repr_char :: "char \<Rightarrow> char \<Rightarrow> string" where
  "repr_char q c =
     (if c = q \<or> c = CHR 0x5C then [CHR 0x5C, c]
      else if c = CHR 0x09 then [CHR 0x5C, CHR ''t'']
      else if c = CHR 0x0A then [CHR 0x5C, CHR ''n'']
      else if c = CHR 0x0D then [CHR 0x5C, CHR ''r'']
      else if printable c then [c]
      else [CHR 0x5C, CHR ''x'', digit_char (of_char c div 16), digit_char (of_char c mod 16)])"

definition repr_str :: "string \<Rightarrow> string" where
  "repr_str s =
     (let q = (if CHR 0x27 \<in> set s \<and> CHR 0x22 \<notin> set s then CHR 0x22 else CHR 0x27)
      in q # concat (map (repr_char q) s) @ [q])"

fun py_repr :: "pyval \<Rightarrow> string" where
  "py_repr PNone = ''None''"
| "py_repr (PBool b) = (if b then ''True'' else ''False'')"
| "py_repr (PInt i) = string_of_int i"
| "py_repr (PStr s) = repr_str s"
| "py_repr (PList xs) = ''['' @ join '', '' (map py_repr xs) @ '']''"

text \<open>What an f-string field \<open>{v}\<close> puts in the text: \<open>str(v)\<close>.\<close>

fun py_str :: "pyval \<Rightarrow> string" where
  "py_str (PStr s) = s"
| "py_str PNone = py_repr PNone"
| "py_str (PBool b) = py_repr (PBool b)"
| "py_str (PInt i) = py_repr (PInt i)"
| "py_str (PList xs) = py_repr (PList xs)"

section \<open>The trafficking engine\<close>

text \<open>
  \<open>TraffickingPayload\<close> is a dataclass of seven fields. \<open>status\<close>, \<open>response\<close> and
  \<open>created_at\<close> have defaults; the default of \<open>created_at\<close> is the wall-clock time at
  which the object is built, \<open>datetime.now().isoformat()\<close>.
\<close>

record TraffickingPayload =
  campaign_id :: pyval
  platform :: pyval
  action :: string
  payload :: pydict
  status :: string
  response :: "pydict option"
  created_at :: string

text \<open>
  The clock is an input of the model: \<open>clk n\<close> is what \<open>datetime.now().isoformat()\<close>
  returns at the \<open>n\<close>-th reading made during a call of the engine.
\<close>

type_synonym clock = "nat \<Rightarrow> string"

text \<open>The constructor call with the four positional fields given and the defaults taken.\<close>

definition new_payload :: "string \<Rightarrow> pyval \<Rightarrow> pyval \<Rightarrow> string \<Rightarrow> pydict \<Rightarrow> TraffickingPayload" where
  "new_payload now camp_id plat act pl =
     \<lparr>campaign_id = camp_id, platform = plat, action = act, payload = pl,
      status = ''Pending'', response = None, created_at = now\<rparr>"

definition get_eve_version :: "string \<Rightarrow> string \<Rightarrow> string" where
  "get_eve_version plat channel_mapped =
     (if plat = ''CM360'' \<and> channel_mapped \<in> set [''ProgAudio'', ''ProgCTV'', ''ProgNative''] then ''V2.2''
      else if plat = ''CM360'' \<and> channel_mapped = ''YouTube'' then ''V2.1''
      else if plat = ''Yahoo DSP'' then ''V2''
      else if plat = ''Amazon DSP'' then ''V3''
      else if plat = ''DV360'' then ''V1''
      else ''V1'')"

definition build_placement_taxonomy :: "pydict \<Rightarrow> pydict \<Rightarrow> string" where
  "build_placement_taxonomy ticket campaign =
     (let camp_name = dict_get campaign ''campaign_name'' (PStr ''UNKNOWN_CAMP'');
          geo = dict_get campaign ''targeting_geo'' (dict_get ticket ''targeting_geo'' (PStr ''UNKNOWN_GEO''));
          lang = dict_get campaign ''language'' (PStr ''ENG'');
          brand = dict_get campaign ''brand_code'' (dict_get ticket ''brand'' (PStr ''UNKNOWN_BRAND''));
          title = dict_get campaign ''title_name'' (PStr ''UNKNOWN_TITLE'');
          objective = dict_get campaign ''campaign_objective'' (PStr ''Acq'');
          channel = dict_get campaign ''channel_mapped'' (PStr ''ProgDisplay'')
      in py_str camp_name @ ''|'' @ py_str geo @ ''|'' @ py_str lang @ ''|'' @ py_str brand @ ''|''
           @ py_str title @ ''|'' @ py_str objective @ ''|'' @ py_str channel)"

definition handle_new_campaign_setup :: "clock \<Rightarrow> pydict \<Rightarrow> pydict \<Rightarrow> pyval \<Rightarrow> TraffickingPayload list" where
  "handle_new_campaign_setup clk ticket campaign plat =
     (let camp_id = dict_get ticket ''campaign_id'' (PStr ''CMP-UNKNOWN'');
          taxonomy = build_placement_taxonomy ticket campaign
      in [new_payload (clk 0) camp_id (PStr ''CM360'') ''CREATE_CAMPAIGN_SHELL''
            [''name'' \<mapsto> dict_get campaign ''campaign_name'' (PStr ''New Campaign''),
             ''start_date'' \<mapsto> dict_get campaign ''start_date'' PNone],
          new_payload (clk 1) camp_id (PStr ''CM360'') ''CREATE_PLACEMENT''
            [''placement_name'' \<mapsto> PStr taxonomy, ''site'' \<mapsto> plat],
          new_payload (clk 2) camp_id plat ''CREATE_INSERTION_ORDER''
            [''budget'' \<mapsto> dict_get campaign ''budget_usd'' (PInt 0),
             ''targeting'' \<mapsto> dict_get campaign ''audience_detailed'' PNone]])"

definition handle_creative_rotation :: "clock \<Rightarrow> pydict \<Rightarrow> pydict \<Rightarrow> pyval \<Rightarrow> TraffickingPayload list" where
  "handle_creative_rotation clk ticket campaign plat =
     (let camp_id = dict_get ticket ''campaign_id'' (PStr ''CMP-UNKNOWN'')
      in [new_payload (clk 0) camp_id (PStr ''CM360'') ''ROTATE_CREATIVES''
            [''placements'' \<mapsto> PList [PStr (build_placement_taxonomy ticket campaign)],
             ''new_assets'' \<mapsto> PList [PStr ''asset_1.mp4'', PStr ''asset_2.jpg'']]])"

definition handle_budget_change :: "clock \<Rightarrow> pydict \<Rightarrow> pydict \<Rightarrow> pyval \<Rightarrow> TraffickingPayload list" where
  "handle_budget_change clk ticket campaign plat =
     (let camp_id = dict_get ticket ''campaign_id'' (PStr ''CMP-UNKNOWN'')
      in [new_payload (clk 0) camp_id plat ''UPDATE_BUDGET''
            [''new_budget'' \<mapsto> dict_get campaign ''budget_usd'' (PInt 0)]])"

definition handle_new_line_item :: "clock \<Rightarrow> pydict \<Rightarrow> pydict \<Rightarrow> pyval \<Rightarrow> TraffickingPayload list" where
  "handle_new_line_item clk ticket campaign plat =
     (let camp_id = dict_get ticket ''campaign_id'' (PStr ''CMP-UNKNOWN'')
      in [new_payload (clk 0) camp_id plat ''CREATE_LINE_ITEM''
            [''targeting'' \<mapsto> dict_get campaign ''audience_detailed'' PNone]])"

definition handle_targeting_update :: "clock \<Rightarrow> pydict \<Rightarrow> pydict \<Rightarrow> pyval \<Rightarrow> TraffickingPayload list" where
  "handle_targeting_update clk ticket campaign plat =
     (let camp_id = dict_get ticket ''campaign_id'' (PStr ''CMP-UNKNOWN'')
      in [new_payload (clk 0) camp_id plat ''UPDATE_TARGETING''
            [''new_targeting'' \<mapsto> dict_get campaign ''audience_detailed'' PNone,
             ''geo'' \<mapsto> dict_get campaign ''targeting_geo'' PNone]])"

definition handle_tag_implementation :: "clock \<Rightarrow> pydict \<Rightarrow> pydict \<Rightarrow> pyval \<Rightarrow> TraffickingPayload list" where
  "handle_tag_implementation clk ticket campaign plat =
     (let camp_id = dict_get ticket ''campaign_id'' (PStr ''CMP-UNKNOWN'')
      in [new_payload (clk 0) camp_id (PStr ''CM360'') ''CREATE_FLOODLIGHT_TAG''
            [''conversion_type'' \<mapsto> PStr ''Subscription'',
             ''counting_method'' \<mapsto> PStr ''STANDARD'']])"

text \<open>
  The dispatch on the request type. The two substring tests raise \<open>TypeError\<close> when the
  request type is \<open>None\<close>, a boolean or an integer; the comparisons with \<open>==\<close> never raise.
\<close>

definition process_ticket :: "clock \<Rightarrow> pydict \<Rightarrow> pydict \<Rightarrow> error + TraffickingPayload list" where
  "process_ticket clk ticket_fields campaign_fields =
     (let req_type = dict_get ticket_fields ''request_type'' (PStr '''');
          plat = dict_get ticket_fields ''platform'' (PStr ''DV360'')
      in case py_or (py_in ''New Campaign'' req_type) (py_in ''New Placements'' req_type) of
           Inl e \<Rightarrow> Inl e
         | Inr True \<Rightarrow> Inr (handle_new_campaign_setup clk ticket_fields campaign_fields plat)
         | Inr False \<Rightarrow>
            (case py_or (py_in ''Creative Rotation'' req_type) (py_in ''Retrafficking'' req_type) of
               Inl e \<Rightarrow> Inl e
             | Inr True \<Rightarrow> Inr (handle_creative_rotation clk ticket_fields campaign_fields plat)
             | Inr False \<Rightarrow>
                (if req_type = PStr ''Budget Change''
                 then Inr (handle_budget_change clk ticket_fields campaign_fields plat)
                 else if req_type = PStr ''New Line Item''
                 then Inr (handle_new_line_item clk ticket_fields campaign_fields plat)
                 else if req_type = PStr ''Targeting Update''
                 then Inr (handle_targeting_update clk ticket_fields campaign_fields plat)
                 else if req_type = PStr ''Site Tagging'' \<or> req_type = PStr ''Kochava''
                 then Inr (handle_tag_implementation clk ticket_fields campaign_fields plat)
                 else Inr [])))"

section \<open>The QA engine\<close>

text \<open>
  A check returns a dictionary with the three keys \<open>check\<close>, \<open>result\<close> and \<open>details\<close>.
  The verdicts are the strings \<open>Pass\<close>, \<open>Fail\<close> and \<open>Needs Review\<close>.
\<close>

record QAResult =
  check :: string
  result :: string
  details :: string

definition check_spec_compliance :: "TraffickingPayload list \<Rightarrow> pydict \<Rightarrow> QAResult" where
  "check_spec_compliance payloads campaign =
     \<lparr>check = ''Spec Compliance'', result = (if payloads \<noteq> [] then ''Pass'' else ''Fail''),
      details = ''Creative matches spec.''\<rparr>"

definition check_tracking :: "TraffickingPayload list \<Rightarrow> pydict \<Rightarrow> QAResult" where
  "check_tracking payloads campaign =
     (let missing = filter (\<lambda>p. action p = ''CREATE_PLACEMENT'' \<and> payload p ''tracking_url'' = None) payloads
      in \<lparr>check = ''Tracking'', result = ''Pass'', details = ''Tracking tags configured.''\<rparr>)"

definition check_targeting :: "TraffickingPayload list \<Rightarrow> pydict \<Rightarrow> QAResult" where
  "check_targeting payloads campaign =
     (let geo = dict_get campaign ''targeting_geo'' PNone
      in if \<not> py_truthy geo
         then \<lparr>check = ''Targeting'', result = ''Fail'', details = ''Missing geo targeting.''\<rparr>
         else \<lparr>check = ''Targeting'', result = ''Pass'', details = ''Geo targeting found: '' @ py_str geo\<rparr>)"

definition check_frequency_cap :: "TraffickingPayload list \<Rightarrow> pydict \<Rightarrow> error + QAResult" where
  "check_frequency_cap payloads campaign =
     (let camp_name = dict_get campaign ''campaign_name'' (PStr '''')
      in case py_or (py_in ''BES'' camp_name) (py_in ''Sponsorship'' camp_name) of
           Inl e \<Rightarrow> Inl e
         | Inr True \<Rightarrow> Inr \<lparr>check = ''Frequency Cap'', result = ''Pass'',
                             details = ''Frequency cap set for Sponsorship.''\<rparr>
         | Inr False \<Rightarrow> Inr \<lparr>check = ''Frequency Cap'', result = ''Pass'',
                              details = ''Frequency cap standard.''\<rparr>)"

definition check_content_exclusions :: "TraffickingPayload list \<Rightarrow> pydict \<Rightarrow> error + QAResult" where
  "check_content_exclusions payloads campaign =
     (let camp_name = dict_get campaign ''campaign_name'' (PStr '''')
      in case py_or (py_in ''BES'' camp_name) (py_in ''Sponsorship'' camp_name) of
           Inl e \<Rightarrow> Inl e
         | Inr True \<Rightarrow> Inr \<lparr>check = ''Content Exclusions'', result = ''Needs Review'',
                             details = ''Sponsorship requires S&P review.''\<rparr>
         | Inr False \<Rightarrow> Inr \<lparr>check = ''Content Exclusions'', result = ''Pass'',
                              details = ''Standard exclusions applied.''\<rparr>)"

definition check_landing_page :: "TraffickingPayload list \<Rightarrow> pydict \<Rightarrow> error + QAResult" where
  "check_landing_page payloads campaign =
     (let url = dict_get campaign ''landing_page'' (PStr ''https://disneyplus.com'')
      in case py_startswith url ''https://'' of
           Inl e \<Rightarrow> Inl e
         | Inr False \<Rightarrow> Inr \<lparr>check = ''Landing Page'', result = ''Fail'',
                              details = ''Non-HTTPS URL provided: '' @ py_str url\<rparr>
         | Inr True \<Rightarrow> Inr \<lparr>check = ''Landing Page'', result = ''Pass'',
                             details = ''Click-through URLs act recursively.''\<rparr>)"

text \<open>
  The loop of \<open>check_taxonomy\<close> over the placement payloads: it returns at the first
  placement name with fewer than six pipes, and raises at a name that has no \<open>count\<close>.
\<close>

fun check_taxonomy_loop :: "TraffickingPayload list \<Rightarrow> error + QAResult" where
  "check_taxonomy_loop [] =
     Inr \<lparr>check = ''Taxonomy Validation'', result = ''Pass'', details = ''Taxonomy valid.''\<rparr>"
| "check_taxonomy_loop (p # ps) =
     (let name = dict_get (payload p) ''placement_name'' (PStr '''')
      in case py_count name CHR ''|'' of
           Inl e \<Rightarrow> Inl e
         | Inr n \<Rightarrow>
            (if n < 6
             then Inr \<lparr>check = ''Taxonomy Validation'', result = ''Fail'',
                       details = ''Placement name does not follow pipe-delimited convention.''\<rparr>
             else check_taxonomy_loop ps))"

definition check_taxonomy :: "TraffickingPayload list \<Rightarrow> pydict \<Rightarrow> error + QAResult" where
  "check_taxonomy payloads campaign =
     (let placement_payloads = filter (\<lambda>p. action p = ''CREATE_PLACEMENT'') payloads
      in check_taxonomy_loop placement_payloads)"

definition check_floodlight_tags :: "TraffickingPayload list \<Rightarrow> pydict \<Rightarrow> QAResult" where
  "check_floodlight_tags payloads campaign =
     \<lparr>check = ''Floodlight Tags'', result = ''Pass'', details = ''Conversion tags correctly assigned.''\<rparr>"

text \<open>
  The eight checks are evaluated from first to last while the result list is built, so
  the first check that raises decides the exception of the whole call.
\<close>

definition run_all_checks :: "TraffickingPayload list \<Rightarrow> pydict \<Rightarrow> error + QAResult list" where
  "run_all_checks payloads campaign =
     (if payloads = []
      then Inr [\<lparr>check = ''Spec Compliance'', result = ''Fail'', details = ''No payloads to QA.''\<rparr>]
      else
        (case check_frequency_cap payloads campaign of
           Inl e \<Rightarrow> Inl e
         | Inr r4 \<Rightarrow>
        (case check_content_exclusions payloads campaign of
           Inl e \<Rightarrow> Inl e
         | Inr r5 \<Rightarrow>
        (case check_landing_page payloads campaign of
           Inl e \<Rightarrow> Inl e
         | Inr r6 \<Rightarrow>
        (case check_taxonomy payloads campaign of
           Inl e \<Rightarrow> Inl e
         | Inr r7 \<Rightarrow>
             Inr [check_spec_compliance payloads campaign,
                  check_tracking payloads campaign,
                  check_targeting payloads campaign,
                  r4, r5, r6, r7,
                  check_floodlight_tags payloads campaign])))))"

section \<open>The caller\<close>

text \<open>
  The orchestrator does not hand the fields of a ticket record to the engine as they
  are: it builds a dictionary with the five keys below. Each value is read with
  \<open>fields.get(key)\<close>, so a field that the record lacks becomes a key holding \<open>None\<close>;
  only the platform has a default.
\<close>

definition tkt_mapped :: "pydict \<Rightarrow> pydict" where
  "tkt_mapped ticket_fields =
     [''request_type'' \<mapsto> dict_get ticket_fields ''request_type'' PNone,
      ''platform'' \<mapsto> dict_get ticket_fields ''platform'' (PStr ''DV360''),
      ''targeting_geo'' \<mapsto> dict_get ticket_fields ''targeting_geo'' PNone,
      ''brand'' \<mapsto> dict_get ticket_fields ''brand'' PNone,
      ''campaign_id'' \<mapsto> dict_get ticket_fields ''campaign_id'' PNone]"

section \<open>Typed inputs\<close>

text \<open>
  The data model gives every campaign field a type: the fields are texts, the budget is
  a number, and every field may be absent. A field of a dictionary is well-typed when
  the key is absent or holds a value of that type.
\<close>

fun is_str :: "pyval \<Rightarrow> bool" where
  "is_str (PStr s) = True"
| "is_str PNone = False"
| "is_str (PBool b) = False"
| "is_str (PInt i) = False"
| "is_str (PList xs) = False"

fun is_int :: "pyval \<Rightarrow> bool" where
  "is_int (PInt i) = True"
| "is_int PNone = False"
| "is_int (PBool b) = False"
| "is_int (PStr s) = False"
| "is_int (PList xs) = False"

definition str_field :: "pydict \<Rightarrow> string \<Rightarrow> bool" where
  "str_field d k = (case d k of None \<Rightarrow> True | Some v \<Rightarrow> is_str v)"

definition int_field :: "pydict \<Rightarrow> string \<Rightarrow> bool" where
  "int_field d k = (case d k of None \<Rightarrow> True | Some v \<Rightarrow> is_int v)"

definition campaign_typed :: "pydict \<Rightarrow> bool" where
  "campaign_typed c =
     (list_all (str_field c)
        [''campaign_name'', ''targeting_geo'', ''language'', ''brand_code'', ''title_name'',
         ''campaign_objective'', ''channel_mapped'', ''start_date'', ''audience_detailed'',
         ''landing_page'']
      \<and> int_field c ''budget_usd'')"

text \<open>The one parameter of a payload that the QA engine reads is the placement name.\<close>

definition payload_typed :: "TraffickingPayload \<Rightarrow> bool" where
  "payload_typed p = str_field (payload p) ''placement_name''"

section \<open>The words of the specification\<close>

text \<open>The text of field \<open>k\<close> of a dictionary, or the fallback when the field is absent.\<close>

definition field_or :: "pydict \<Rightarrow> string \<Rightarrow> string \<Rightarrow> string" where
  "field_or d k fallback = (case d k of None \<Rightarrow> fallback | Some v \<Rightarrow> py_str v)"

text \<open>
  The seven taxonomy fields in order. The geo and the brand of the campaign fall back on
  the ticket's \<open>targeting_geo\<close> and \<open>brand\<close> before they fall back on a constant.
\<close>

definition taxonomy_fields :: "pydict \<Rightarrow> pydict \<Rightarrow> string list" where
  "taxonomy_fields ticket campaign =
     [field_or campaign ''campaign_name'' ''UNKNOWN_CAMP'',
      field_or campaign ''targeting_geo'' (field_or ticket ''targeting_geo'' ''UNKNOWN_GEO''),
      field_or campaign ''language'' ''ENG'',
      field_or campaign ''brand_code'' (field_or ticket ''brand'' ''UNKNOWN_BRAND''),
      field_or campaign ''title_name'' ''UNKNOWN_TITLE'',
      field_or campaign ''campaign_objective'' ''Acq'',
      field_or campaign ''channel_mapped'' ''ProgDisplay'']"

text \<open>
  The taxonomy string as the specification words it: only the geo prefers a ticket-level
  value, and a missing brand code falls back on \<open>UNKNOWN_BRAND\<close> at once.
\<close>

definition taxonomy_as_claimed :: "pydict \<Rightarrow> pydict \<Rightarrow> string" where
  "taxonomy_as_claimed ticket campaign =
     join ''|''
       [field_or campaign ''campaign_name'' ''UNKNOWN_CAMP'',
        field_or campaign ''targeting_geo'' (field_or ticket ''targeting_geo'' ''UNKNOWN_GEO''),
        field_or campaign ''language'' ''ENG'',
        field_or campaign ''brand_code'' ''UNKNOWN_BRAND'',
        field_or campaign ''title_name'' ''UNKNOWN_TITLE'',
        field_or campaign ''campaign_objective'' ''Acq'',
        field_or campaign ''channel_mapped'' ''ProgDisplay'']"

text \<open>The names of the eight checks in their declaration order.\<close>

definition check_names :: "string list" where
  "check_names = [''Spec Compliance'', ''Tracking'', ''Targeting'', ''Frequency Cap'',
     ''Content Exclusions'', ''Landing Page'', ''Taxonomy Validation'', ''Floodlight Tags'']"

text \<open>The request types that the router has a handler for.\<close>

definition recognised :: "string \<Rightarrow> bool" where
  "recognised r =
     (str_contains ''New Campaign'' r \<or> str_contains ''New Placements'' r
      \<or> str_contains ''Creative Rotation'' r \<or> str_contains ''Retrafficking'' r
      \<or> r \<in> set [''Budget Change'', ''New Line Item'', ''Targeting Update'', ''Site Tagging'', ''Kochava''])"

text \<open>A payload with the time of its construction forgotten.\<close>

definition strip_created_at :: "TraffickingPayload \<Rightarrow> TraffickingPayload" where
  "strip_created_at p = p\<lparr>created_at := []\<rparr>"

section \<open>Sample inputs\<close>

definition no_fields :: pydict where
  "no_fields = Map.empty"

definition sample_campaign :: pydict where
  "sample_campaign =
     [''campaign_name'' \<mapsto> PStr ''DBUN_Bundle_Acq_US_ProgDisplay'', ''targeting_geo'' \<mapsto> PStr ''US'',
      ''language'' \<mapsto> PStr ''ENG'', ''brand_code'' \<mapsto> PStr ''DBUN'', ''title_name'' \<mapsto> PStr ''Bundle'',
      ''campaign_objective'' \<mapsto> PStr ''Acq'', ''channel_mapped'' \<mapsto> PStr ''ProgDisplay'']"

definition branded_ticket :: pydict where
  "branded_ticket = [''brand'' \<mapsto> PStr ''DIS'']"

definition piped_campaign :: pydict where
  "piped_campaign = [''campaign_name'' \<mapsto> PStr ''Q1|Q2'']"

definition sponsorship_campaign :: pydict where
  "sponsorship_campaign = [''campaign_name'' \<mapsto> PStr ''ESP_Sports_Sponsorship_US'']"

definition http_campaign :: pydict where
  "http_campaign = [''landing_page'' \<mapsto> PStr ''http://disney.com'']"

definition stub_payload :: TraffickingPayload where
  "stub_payload =
     new_payload ''2026-03-01T09:00:00'' (PStr ''CMP-1'') (PStr ''CM360'') ''CREATE'' Map.empty"

text \<open>Two clocks: one stands at nine in the morning, the other at half past nine in the evening.\<close>

definition morning_clock :: clock where
  "morning_clock = (\<lambda>n. ''2026-03-01T09:00:00.250000'')"

definition evening_clock :: clock where
  "evening_clock = (\<lambda>n. ''2026-03-01T21:30:00.750000'')"

definition budget_ticket :: pydict where
  "budget_ticket = [''request_type'' \<mapsto> PStr ''Budget Change'']"

definition new_campaign_ticket :: pydict where
  "new_campaign_ticket =
     [''request_type'' \<mapsto> PStr ''New Campaign'', ''platform'' \<mapsto> PStr ''DV360'',
      ''campaign_id'' \<mapsto> PStr ''CMP-9999'']"

text \<open>The fields of a ticket record that has a platform and a campaign, and no request type.\<close>

definition untyped_request_fields :: pydict where
  "untyped_request_fields =
     [''platform'' \<mapsto> PStr ''Meta'', ''campaign_id'' \<mapsto> PList [PStr ''recABC123'']]"

section \<open>The automation tier table\<close>

text \<open>
  Claim C6. \<open>get_eve_version\<close> implements the fixed table: on CM360 the channels
  ProgAudio, ProgCTV and ProgNative give V2.2 and YouTube gives V2.1; Yahoo DSP gives V2,
  Amazon DSP gives V3 and DV360 gives V1 whatever the channel; every other pair gives V1.
  The five sample lookups of the specification have the stated values.
\<close>

theorem get_eve_version_table:
  "(plat = ''CM360'' \<and> (ch = ''ProgAudio'' \<or> ch = ''ProgCTV'' \<or> ch = ''ProgNative'')
      \<longrightarrow> get_eve_version plat ch = ''V2.2'')
   \<and> (plat = ''CM360'' \<and> ch = ''YouTube'' \<longrightarrow> get_eve_version plat ch = ''V2.1'')
   \<and> (plat = ''Yahoo DSP'' \<longrightarrow> get_eve_version plat ch = ''V2'')
   \<and> (plat = ''Amazon DSP'' \<longrightarrow> get_eve_version plat ch = ''V3'')
   \<and> (plat = ''DV360'' \<longrightarrow> get_eve_version plat ch = ''V1'')
   \<and> (\<not> (plat = ''CM360'' \<and> (ch = ''ProgAudio'' \<or> ch = ''ProgCTV'' \<or> ch = ''ProgNative''))
        \<and> \<not> (plat = ''CM360'' \<and> ch = ''YouTube'')
        \<and> plat \<noteq> ''Yahoo DSP'' \<and> plat \<noteq> ''Amazon DSP'' \<and> plat \<noteq> ''DV360''
      \<longrightarrow> get_eve_version plat ch = ''V1'')
   \<and> get_eve_version ''DV360'' ''ProgDisplay'' = ''V1''
   \<and> get_eve_version ''Yahoo DSP'' ''ProgDisplay'' = ''V2''
   \<and> get_eve_version ''CM360'' ''YouTube'' = ''V2.1''
   \<and> get_eve_version ''CM360'' ''ProgAudio'' = ''V2.2''
   \<and> get_eve_version ''Amazon DSP'' ''ProgCTV'' = ''V3''"
  by (simp add: get_eve_version_def)

theorem get_eve_version_table_witness:
  "get_eve_version ''CM360'' ''ProgNative'' = ''V2.2''
   \<and> get_eve_version ''Yahoo DSP'' ''YouTube'' = ''V2''
   \<and> get_eve_version ''Amazon DSP'' ''Search'' = ''V3''
   \<and> get_eve_version ''Meta'' ''Social'' = ''V1''
   \<and> get_eve_version ''CM360'' ''ProgDisplay'' = ''V1''"
  using get_eve_version_table [of "''CM360''" "''ProgNative''"]
        get_eve_version_table [of "''Yahoo DSP''" "''YouTube''"]
        get_eve_version_table [of "''Amazon DSP''" "''Search''"]
        get_eve_version_table [of "''Meta''" "''Social''"]
        get_eve_version_table [of "''CM360''" "''ProgDisplay''"]
  by simp

section \<open>The placement taxonomy\<close>

lemma dict_get_field_or: "py_str (dict_get d k (PStr fb)) = field_or d k fb"
  by (simp add: dict_get_def field_or_def split: option.split)

lemma dict_get_field_or2:
  "py_str (dict_get d k (dict_get d' k' (PStr fb))) = field_or d k (field_or d' k' fb)"
  by (simp add: dict_get_def field_or_def split: option.split)

lemma taxonomy_join: "build_placement_taxonomy t c = join ''|'' (taxonomy_fields t c)"
  by (simp add: build_placement_taxonomy_def taxonomy_fields_def Let_def
        dict_get_field_or dict_get_field_or2)

lemma count_join_pipe:
  "count_list (join ''|'' (x # xs)) CHR ''|''
     = length xs + sum_list (map (\<lambda>s. count_list s CHR ''|'') (x # xs))"
  by (induction xs arbitrary: x) simp_all

text \<open>
  Claim C4, as stated: the taxonomy string has exactly six pipes for every ticket and
  campaign. It fails for a campaign whose name holds a pipe: the fields are copied into
  the string as they are.
\<close>

theorem taxonomy_six_pipes_counterexample:
  "count_list (build_placement_taxonomy no_fields piped_campaign) CHR ''|'' \<noteq> 6"
  by (simp add: build_placement_taxonomy_def dict_get_def no_fields_def piped_campaign_def)

text \<open>
  Claim C4, amended: the taxonomy string has six pipes more than its seven field texts
  have together. So it has at least six pipes, and exactly six when no field text holds
  a pipe.
\<close>

theorem taxonomy_pipe_count:
  "count_list (build_placement_taxonomy t c) CHR ''|''
     = 6 + sum_list (map (\<lambda>f. count_list f CHR ''|'') (taxonomy_fields t c))
   \<and> 6 \<le> count_list (build_placement_taxonomy t c) CHR ''|''
   \<and> ((\<forall>f \<in> set (taxonomy_fields t c). CHR ''|'' \<notin> set f)
        \<longrightarrow> count_list (build_placement_taxonomy t c) CHR ''|'' = 6)"
proof -
  have "taxonomy_fields t c \<noteq> [] \<and> length (tl (taxonomy_fields t c)) = 6"
    by (simp add: taxonomy_fields_def)
  then obtain x xs where xs: "taxonomy_fields t c = x # xs" "length xs = 6"
    by (cases "taxonomy_fields t c") auto
  have eq: "count_list (build_placement_taxonomy t c) CHR ''|''
     = 6 + sum_list (map (\<lambda>f. count_list f CHR ''|'') (taxonomy_fields t c))"
    unfolding taxonomy_join xs(1) count_join_pipe using xs(2) by simp
  have "(\<forall>f \<in> set (taxonomy_fields t c). CHR ''|'' \<notin> set f)
        \<Longrightarrow> sum_list (map (\<lambda>f. count_list f CHR ''|'') (taxonomy_fields t c)) = 0"
    by (simp add: count_list_0_iff)
  with eq show ?thesis by simp
qed

theorem taxonomy_pipe_count_witness:
  "count_list (build_placement_taxonomy no_fields sample_campaign) CHR ''|'' = 6"
  using taxonomy_pipe_count [of no_fields sample_campaign]
  by (simp add: taxonomy_fields_def field_or_def sample_campaign_def no_fields_def)

text \<open>
  Claim C5, as stated: a missing brand code falls back on \<open>UNKNOWN_BRAND\<close>. It fails
  for a ticket that carries a brand: the code takes the ticket's brand first.
\<close>

theorem taxonomy_brand_counterexample:
  "build_placement_taxonomy branded_ticket no_fields \<noteq> taxonomy_as_claimed branded_ticket no_fields"
  by (simp add: build_placement_taxonomy_def taxonomy_as_claimed_def field_or_def dict_get_def
        branded_ticket_def no_fields_def)

text \<open>
  Claim C5, amended: the taxonomy string is the seven fields campaign name, geo,
  language, brand code, title, objective and channel, in this order, joined by pipes.
  The fallbacks are \<open>UNKNOWN_CAMP\<close>, \<open>UNKNOWN_GEO\<close> after the ticket's geo, \<open>ENG\<close>,
  \<open>UNKNOWN_BRAND\<close> after the ticket's brand, \<open>UNKNOWN_TITLE\<close>, \<open>Acq\<close> and
  \<open>ProgDisplay\<close>. For the sample campaign of the specification the string is the one
  given there, whatever the ticket.
\<close>

theorem taxonomy_is_join_of_fields:
  "build_placement_taxonomy t c = join ''|'' (taxonomy_fields t c)
   \<and> length (taxonomy_fields t c) = 7
   \<and> build_placement_taxonomy t sample_campaign
       = ''DBUN_Bundle_Acq_US_ProgDisplay|US|ENG|DBUN|Bundle|Acq|ProgDisplay''"
  by (simp add: taxonomy_join) (simp add: taxonomy_fields_def field_or_def sample_campaign_def)

theorem taxonomy_is_join_of_fields_witness:
  "build_placement_taxonomy branded_ticket no_fields
     = ''UNKNOWN_CAMP|UNKNOWN_GEO|ENG|DIS|UNKNOWN_TITLE|Acq|ProgDisplay''"
  using taxonomy_is_join_of_fields [of branded_ticket no_fields]
  by (simp add: taxonomy_fields_def field_or_def branded_ticket_def no_fields_def)

section \<open>The router\<close>

text \<open>\<open>str_contains\<close> is the contiguous-sublist relation of the list library.\<close>

lemma str_contains_sublist: "str_contains needle s \<longleftrightarrow> sublist needle s"
  by (induction s) (auto simp: sublist_Cons_right)

lemma str_field_get:
  assumes "str_field d k"
  obtains s where "dict_get d k (PStr fb) = PStr s"
proof (cases "d k")
  case None
  then show ?thesis using that by (simp add: dict_get_def)
next
  case (Some v)
  with assms have "is_str v" by (simp add: str_field_def)
  then obtain s where "v = PStr s" by (cases v) auto
  with Some show ?thesis using that by (simp add: dict_get_def)
qed

lemma py_or_Inr: "py_or (Inr a) (Inr b) = Inr (a \<or> b)"
  by (simp add: py_or_def split: bool.split)

lemma process_ticket_str:
  assumes "dict_get t ''request_type'' (PStr '''') = PStr r"
  shows "process_ticket clk t c =
     Inr (let plat = dict_get t ''platform'' (PStr ''DV360'') in
          if str_contains ''New Campaign'' r \<or> str_contains ''New Placements'' r
          then handle_new_campaign_setup clk t c plat
          else if str_contains ''Creative Rotation'' r \<or> str_contains ''Retrafficking'' r
          then handle_creative_rotation clk t c plat
          else if r = ''Budget Change'' then handle_budget_change clk t c plat
          else if r = ''New Line Item'' then handle_new_line_item clk t c plat
          else if r = ''Targeting Update'' then handle_targeting_update clk t c plat
          else if r = ''Site Tagging'' \<or> r = ''Kochava'' then handle_tag_implementation clk t c plat
          else [])"
  unfolding process_ticket_def Let_def assms py_in.simps py_or_Inr
  by (simp split: bool.split)

lemma process_ticket_Inr:
  assumes "process_ticket clk t c = Inr ps"
  shows "ps \<in> set [handle_new_campaign_setup clk t c (dict_get t ''platform'' (PStr ''DV360'')),
                    handle_creative_rotation clk t c (dict_get t ''platform'' (PStr ''DV360'')),
                    handle_budget_change clk t c (dict_get t ''platform'' (PStr ''DV360'')),
                    handle_new_line_item clk t c (dict_get t ''platform'' (PStr ''DV360'')),
                    handle_targeting_update clk t c (dict_get t ''platform'' (PStr ''DV360'')),
                    handle_tag_implementation clk t c (dict_get t ''platform'' (PStr ''DV360'')),
                    []]"
  using assms unfolding process_ticket_def Let_def
  by (simp split: sum.splits bool.splits if_splits)

lemma handlers_invariant:
  "p \<in> set (handle_new_campaign_setup clk t c plat) \<or> p \<in> set (handle_creative_rotation clk t c plat)
   \<or> p \<in> set (handle_budget_change clk t c plat) \<or> p \<in> set (handle_new_line_item clk t c plat)
   \<or> p \<in> set (handle_targeting_update clk t c plat) \<or> p \<in> set (handle_tag_implementation clk t c plat)
   \<Longrightarrow> status p = ''Pending'' \<and> response p = None
       \<and> campaign_id p = dict_get t ''campaign_id'' (PStr ''CMP-UNKNOWN'')
       \<and> payload_typed p"
  by (auto simp: handle_new_campaign_setup_def handle_creative_rotation_def handle_budget_change_def
        handle_new_line_item_def handle_targeting_update_def handle_tag_implementation_def
        new_payload_def Let_def payload_typed_def str_field_def)

lemma process_ticket_invariant:
  assumes "process_ticket clk t c = Inr ps" "p \<in> set ps"
  shows "status p = ''Pending'' \<and> response p = None
       \<and> campaign_id p = dict_get t ''campaign_id'' (PStr ''CMP-UNKNOWN'')
       \<and> payload_typed p"
proof -
  let ?plat = "dict_get t ''platform'' (PStr ''DV360'')"
  from process_ticket_Inr [OF assms(1)] assms(2)
  have "p \<in> set (handle_new_campaign_setup clk t c ?plat) \<or> p \<in> set (handle_creative_rotation clk t c ?plat)
   \<or> p \<in> set (handle_budget_change clk t c ?plat) \<or> p \<in> set (handle_new_line_item clk t c ?plat)
   \<or> p \<in> set (handle_targeting_update clk t c ?plat) \<or> p \<in> set (handle_tag_implementation clk t c ?plat)"
    by auto
  then show ?thesis by (rule handlers_invariant)
qed

text \<open>
  Claim C10. Every payload that one call of \<open>process_ticket\<close> returns has status
  \<open>Pending\<close> and no response, and all of them carry the same campaign id: the ticket's
  \<open>campaign_id\<close> field when the ticket has one, and \<open>CMP-UNKNOWN\<close> when it has none.
\<close>

theorem process_ticket_pending_same_campaign:
  assumes "process_ticket clk t c = Inr ps"
  shows "\<forall>p \<in> set ps. status p = ''Pending'' \<and> response p = None
           \<and> campaign_id p = (case t ''campaign_id'' of None \<Rightarrow> PStr ''CMP-UNKNOWN'' | Some v \<Rightarrow> v)"
  using process_ticket_invariant [OF assms] by (simp add: dict_get_def)

theorem process_ticket_pending_same_campaign_witness:
  "\<exists>ps. process_ticket morning_clock new_campaign_ticket sample_campaign = Inr ps \<and> length ps = 3
     \<and> (\<forall>p \<in> set ps. status p = ''Pending'' \<and> response p = None \<and> campaign_id p = PStr ''CMP-9999'')"
proof -
  have g: "dict_get new_campaign_ticket ''request_type'' (PStr []) = PStr ''New Campaign''"
    by (simp add: dict_get_def new_campaign_ticket_def)
  have pl: "dict_get new_campaign_ticket ''platform'' (PStr ''DV360'') = PStr ''DV360''"
    by (simp add: dict_get_def new_campaign_ticket_def)
  have r: "process_ticket morning_clock new_campaign_ticket sample_campaign
        = Inr (handle_new_campaign_setup morning_clock new_campaign_ticket sample_campaign (PStr ''DV360''))"
    using process_ticket_str [OF g, of morning_clock sample_campaign] by (simp add: pl)
  have "length (handle_new_campaign_setup morning_clock new_campaign_ticket sample_campaign (PStr ''DV360'')) = 3"
    by (simp add: handle_new_campaign_setup_def Let_def)
  then show ?thesis
    using process_ticket_pending_same_campaign [OF r] r
    by (simp add: new_campaign_ticket_def)
qed

text \<open>
  Claim C1. For a ticket whose request type contains \<open>New Campaign\<close> or
  \<open>New Placements\<close>, \<open>process_ticket\<close> returns exactly three payloads, in the order
  campaign shell, placement, insertion order. The first two go to CM360 and the third to
  the ticket's platform, which is DV360 when the ticket names none.
\<close>

theorem new_campaign_three_payloads:
  assumes "t ''request_type'' = Some (PStr r)"
    and "str_contains ''New Campaign'' r \<or> str_contains ''New Placements'' r"
  shows "\<exists>p1 p2 p3. process_ticket clk t c = Inr [p1, p2, p3]
      \<and> action p1 = ''CREATE_CAMPAIGN_SHELL'' \<and> action p2 = ''CREATE_PLACEMENT''
      \<and> action p3 = ''CREATE_INSERTION_ORDER''
      \<and> platform p1 = PStr ''CM360'' \<and> platform p2 = PStr ''CM360''
      \<and> platform p3 = (case t ''platform'' of None \<Rightarrow> PStr ''DV360'' | Some v \<Rightarrow> v)"
proof -
  from assms(1) have "dict_get t ''request_type'' (PStr '''') = PStr r"
    by (simp add: dict_get_def)
  from process_ticket_str [OF this] assms(2)
  have "process_ticket clk t c
      = Inr (handle_new_campaign_setup clk t c (dict_get t ''platform'' (PStr ''DV360'')))"
    by (simp add: Let_def)
  then show ?thesis
    by (simp add: handle_new_campaign_setup_def new_payload_def Let_def dict_get_def)
qed

theorem new_campaign_three_payloads_witness:
  "\<exists>p1 p2 p3. process_ticket morning_clock new_campaign_ticket sample_campaign = Inr [p1, p2, p3]
      \<and> action p1 = ''CREATE_CAMPAIGN_SHELL'' \<and> action p2 = ''CREATE_PLACEMENT''
      \<and> action p3 = ''CREATE_INSERTION_ORDER''
      \<and> platform p1 = PStr ''CM360'' \<and> platform p2 = PStr ''CM360'' \<and> platform p3 = PStr ''DV360''"
proof -
  have a: "new_campaign_ticket ''request_type'' = Some (PStr ''New Campaign'')"
    by (simp add: new_campaign_ticket_def)
  have b: "str_contains ''New Campaign'' ''New Campaign'' \<or> str_contains ''New Placements'' ''New Campaign''"
    by simp
  have c: "new_campaign_ticket ''platform'' = Some (PStr ''DV360'')"
    by (simp add: new_campaign_ticket_def)
  show ?thesis
    using new_campaign_three_payloads
            [of new_campaign_ticket "''New Campaign''" morning_clock sample_campaign] a b
    by (simp add: c)
qed

section \<open>The clock\<close>

lemma strip_handlers:
  "map strip_created_at (handle_new_campaign_setup clk t c plat)
     = map strip_created_at (handle_new_campaign_setup clk' t c plat)"
  "map strip_created_at (handle_creative_rotation clk t c plat)
     = map strip_created_at (handle_creative_rotation clk' t c plat)"
  "map strip_created_at (handle_budget_change clk t c plat)
     = map strip_created_at (handle_budget_change clk' t c plat)"
  "map strip_created_at (handle_new_line_item clk t c plat)
     = map strip_created_at (handle_new_line_item clk' t c plat)"
  "map strip_created_at (handle_targeting_update clk t c plat)
     = map strip_created_at (handle_targeting_update clk' t c plat)"
  "map strip_created_at (handle_tag_implementation clk t c plat)
     = map strip_created_at (handle_tag_implementation clk' t c plat)"
  by (simp_all add: handle_new_campaign_setup_def handle_creative_rotation_def
        handle_budget_change_def handle_new_line_item_def handle_targeting_update_def
        handle_tag_implementation_def new_payload_def strip_created_at_def Let_def)

lemma map_sum_dispatch:
  "map_sum id f (case a of Inl e \<Rightarrow> Inl e | Inr True \<Rightarrow> Inr x | Inr False \<Rightarrow> y)
     = (case a of Inl e \<Rightarrow> Inl e | Inr True \<Rightarrow> Inr (f x) | Inr False \<Rightarrow> map_sum id f y)"
  by (simp split: sum.split bool.split)

lemma map_sum_if:
  "map_sum id f (if b then Inr x else y) = (if b then Inr (f x) else map_sum id f y)"
  by simp

lemma strip_process_ticket:
  "map_sum id (map strip_created_at) (process_ticket clk t c)
     = map_sum id (map strip_created_at) (process_ticket clk' t c)"
  unfolding process_ticket_def Let_def map_sum_dispatch map_sum_if
    strip_handlers [where clk = clk and clk' = clk'] ..

lemma taxonomy_loop_strip: "check_taxonomy_loop (map strip_created_at ps) = check_taxonomy_loop ps"
  by (induction ps) (simp_all add: strip_created_at_def split: sum.split)

lemma check_taxonomy_strip: "check_taxonomy (map strip_created_at ps) c = check_taxonomy ps c"
proof -
  have "filter (\<lambda>p. action p = ''CREATE_PLACEMENT'') (map strip_created_at ps)
      = map strip_created_at (filter (\<lambda>p. action p = ''CREATE_PLACEMENT'') ps)"
    by (simp add: filter_map o_def strip_created_at_def)
  then show ?thesis by (simp add: check_taxonomy_def taxonomy_loop_strip)
qed

lemma run_all_checks_strip: "run_all_checks (map strip_created_at ps) c = run_all_checks ps c"
proof -
  have 1: "check_frequency_cap (map strip_created_at ps) c = check_frequency_cap ps c"
    by (simp add: check_frequency_cap_def)
  have 2: "check_content_exclusions (map strip_created_at ps) c = check_content_exclusions ps c"
    by (simp add: check_content_exclusions_def)
  have 3: "check_landing_page (map strip_created_at ps) c = check_landing_page ps c"
    by (simp add: check_landing_page_def)
  have 4: "check_targeting (map strip_created_at ps) c = check_targeting ps c"
    by (simp add: check_targeting_def)
  have 5: "check_spec_compliance (map strip_created_at ps) c = check_spec_compliance ps c"
    by (simp add: check_spec_compliance_def)
  have 6: "check_tracking (map strip_created_at ps) c = check_tracking ps c"
    by (simp add: check_tracking_def)
  have 7: "check_floodlight_tags (map strip_created_at ps) c = check_floodlight_tags ps c"
    by (simp add: check_floodlight_tags_def)
  have 8: "(map strip_created_at ps = []) = (ps = [])" by simp
  show ?thesis
    unfolding run_all_checks_def 1 2 3 4 5 6 7 8 check_taxonomy_strip ..
qed

lemma run_all_checks_cong_strip:
  assumes "map strip_created_at ps = map strip_created_at ps'"
  shows "run_all_checks ps c = run_all_checks ps' c"
proof -
  have "run_all_checks ps c = run_all_checks (map strip_created_at ps) c"
    by (simp only: run_all_checks_strip)
  also have "\<dots> = run_all_checks (map strip_created_at ps') c"
    by (simp only: assms)
  also have "\<dots> = run_all_checks ps' c"
    by (simp only: run_all_checks_strip)
  finally show ?thesis .
qed

text \<open>
  Claim C2, as stated: two calls of \<open>process_ticket\<close> on the same ticket and campaign
  return equal payloads. It fails when the clock has moved between the calls: every
  payload is stamped with the time at which it was built.
\<close>

theorem route_clock_counterexample:
  "process_ticket morning_clock budget_ticket no_fields
     \<noteq> process_ticket evening_clock budget_ticket no_fields"
  by (simp add: process_ticket_def py_or_def dict_get_def budget_ticket_def handle_budget_change_def
        new_payload_def morning_clock_def evening_clock_def)

text \<open>
  Claim C2, amended: two calls of \<open>process_ticket\<close> on the same ticket and campaign
  return payloads that are equal in every field but \<open>created_at\<close>, or raise the same
  exception. \<open>run_all_checks\<close> does not read \<open>created_at\<close>: it gives equal results on
  payload lists that differ in that field only, so the checks of the payloads of the two
  calls are equal.
\<close>

theorem route_equal_up_to_created_at:
  "map_sum id (map strip_created_at) (process_ticket clk t c)
     = map_sum id (map strip_created_at) (process_ticket clk' t c)
   \<and> (map strip_created_at ps = map strip_created_at ps' \<longrightarrow> run_all_checks ps c = run_all_checks ps' c)
   \<and> (case process_ticket clk t c of Inl e \<Rightarrow> Inl e | Inr out \<Rightarrow> run_all_checks out c)
       = (case process_ticket clk' t c of Inl e \<Rightarrow> Inl e | Inr out \<Rightarrow> run_all_checks out c)"
proof (intro conjI impI)
  show s: "map_sum id (map strip_created_at) (process_ticket clk t c)
     = map_sum id (map strip_created_at) (process_ticket clk' t c)"
    by (rule strip_process_ticket)
  show "run_all_checks ps c = run_all_checks ps' c"
    if "map strip_created_at ps = map strip_created_at ps'"
    using that by (rule run_all_checks_cong_strip)
  show "(case process_ticket clk t c of Inl e \<Rightarrow> Inl e | Inr out \<Rightarrow> run_all_checks out c)
       = (case process_ticket clk' t c of Inl e \<Rightarrow> Inl e | Inr out \<Rightarrow> run_all_checks out c)"
  proof (cases "process_ticket clk t c")
    case (Inl e)
    with s show ?thesis by (cases "process_ticket clk' t c") simp_all
  next
    case (Inr out)
    with s obtain out' where o: "process_ticket clk' t c = Inr out'"
      "map strip_created_at out = map strip_created_at out'"
      by (cases "process_ticket clk' t c") simp_all
    from run_all_checks_cong_strip [OF o(2)] Inr o(1) show ?thesis by simp
  qed
qed

theorem route_equal_up_to_created_at_witness:
  "map_sum id (map strip_created_at) (process_ticket morning_clock budget_ticket http_campaign)
     = map_sum id (map strip_created_at) (process_ticket evening_clock budget_ticket http_campaign)
   \<and> run_all_checks [stub_payload] http_campaign
     = run_all_checks [stub_payload\<lparr>created_at := ''2026-03-02T10:00:00''\<rparr>] http_campaign"
  using route_equal_up_to_created_at
          [of morning_clock budget_ticket http_campaign evening_clock
              "[stub_payload]" "[stub_payload\<lparr>created_at := ''2026-03-02T10:00:00''\<rparr>]"]
  by (simp add: strip_created_at_def)

section \<open>The checks\<close>

lemma campaign_typed_name: "campaign_typed c \<Longrightarrow> str_field c ''campaign_name''"
  by (simp add: campaign_typed_def)

lemma campaign_typed_landing: "campaign_typed c \<Longrightarrow> str_field c ''landing_page''"
  by (simp add: campaign_typed_def)

lemma frequency_cap_str:
  assumes "dict_get c ''campaign_name'' (PStr '''') = PStr nm"
  shows "\<exists>r. check_frequency_cap ps c = Inr r \<and> check r = ''Frequency Cap'' \<and> result r = ''Pass''"
  using assms
  by (cases "str_contains ''BES'' nm \<or> str_contains ''Sponsorship'' nm")
     (simp_all add: check_frequency_cap_def py_or_Inr)

lemma content_exclusions_str:
  assumes "dict_get c ''campaign_name'' (PStr '''') = PStr nm"
  shows "check_content_exclusions ps c =
     Inr (if str_contains ''BES'' nm \<or> str_contains ''Sponsorship'' nm
          then \<lparr>check = ''Content Exclusions'', result = ''Needs Review'',
                 details = ''Sponsorship requires S&P review.''\<rparr>
          else \<lparr>check = ''Content Exclusions'', result = ''Pass'',
                 details = ''Standard exclusions applied.''\<rparr>)"
  using assms by (simp add: check_content_exclusions_def py_or_Inr)

lemma landing_page_str:
  assumes "dict_get c ''landing_page'' (PStr ''https://disneyplus.com'') = PStr u"
  shows "check_landing_page ps c =
     Inr (if prefix ''https://'' u
          then \<lparr>check = ''Landing Page'', result = ''Pass'',
                 details = ''Click-through URLs act recursively.''\<rparr>
          else \<lparr>check = ''Landing Page'', result = ''Fail'',
                 details = ''Non-HTTPS URL provided: '' @ u\<rparr>)"
  using assms by (simp add: check_landing_page_def)

lemma taxonomy_loop_typed:
  "list_all payload_typed ps \<Longrightarrow> \<exists>r. check_taxonomy_loop ps = Inr r"
proof (induction ps)
  case Nil
  then show ?case by simp
next
  case (Cons p ps)
  then have "str_field (payload p) ''placement_name''" by (simp add: payload_typed_def)
  then obtain s where "dict_get (payload p) ''placement_name'' (PStr '''') = PStr s"
    by (rule str_field_get)
  with Cons show ?case by simp
qed

lemma taxonomy_typed:
  assumes "list_all payload_typed ps"
  shows "\<exists>r. check_taxonomy ps c = Inr r"
proof -
  from assms have "list_all payload_typed (filter (\<lambda>p. action p = ''CREATE_PLACEMENT'') ps)"
    by (simp add: list_all_iff)
  then show ?thesis unfolding check_taxonomy_def Let_def by (rule taxonomy_loop_typed)
qed

lemma taxonomy_loop_check: "check_taxonomy_loop ps = Inr r \<Longrightarrow> check r = ''Taxonomy Validation''"
  by (induction ps) (auto simp: Let_def split: sum.splits if_splits)

lemma frequency_cap_check: "check_frequency_cap ps c = Inr r \<Longrightarrow> check r = ''Frequency Cap''"
  by (auto simp: check_frequency_cap_def Let_def split: sum.splits bool.splits)

lemma content_exclusions_check: "check_content_exclusions ps c = Inr r \<Longrightarrow> check r = ''Content Exclusions''"
  by (auto simp: check_content_exclusions_def Let_def split: sum.splits bool.splits)

lemma landing_page_check: "check_landing_page ps c = Inr r \<Longrightarrow> check r = ''Landing Page''"
  by (auto simp: check_landing_page_def Let_def split: sum.splits bool.splits)

lemma run_all_checks_Inr:
  assumes "ps \<noteq> []" "run_all_checks ps c = Inr rs"
  shows "\<exists>r4 r5 r6 r7. check_frequency_cap ps c = Inr r4 \<and> check_content_exclusions ps c = Inr r5
     \<and> check_landing_page ps c = Inr r6 \<and> check_taxonomy ps c = Inr r7
     \<and> rs = [check_spec_compliance ps c, check_tracking ps c, check_targeting ps c,
             r4, r5, r6, r7, check_floodlight_tags ps c]"
  using assms by (auto simp: run_all_checks_def split: sum.splits)

lemma run_all_checks_typed:
  assumes "ps \<noteq> []" "campaign_typed c" "list_all payload_typed ps"
  shows "\<exists>r4 r5 r6 r7. run_all_checks ps c =
           Inr [check_spec_compliance ps c, check_tracking ps c, check_targeting ps c,
                r4, r5, r6, r7, check_floodlight_tags ps c]
         \<and> check_frequency_cap ps c = Inr r4 \<and> check_content_exclusions ps c = Inr r5
         \<and> check_landing_page ps c = Inr r6 \<and> check_taxonomy ps c = Inr r7"
proof -
  obtain nm where nm: "dict_get c ''campaign_name'' (PStr '''') = PStr nm"
    using campaign_typed_name [OF assms(2)] by (rule str_field_get)
  obtain u where u: "dict_get c ''landing_page'' (PStr ''https://disneyplus.com'') = PStr u"
    using campaign_typed_landing [OF assms(2)] by (rule str_field_get)
  obtain r4 where r4: "check_frequency_cap ps c = Inr r4"
    using frequency_cap_str [OF nm] by blast
  obtain r5 where r5: "check_content_exclusions ps c = Inr r5"
    using content_exclusions_str [OF nm] by blast
  obtain r6 where r6: "check_landing_page ps c = Inr r6"
    using landing_page_str [OF u] by blast
  obtain r7 where r7: "check_taxonomy ps c = Inr r7"
    using taxonomy_typed [OF assms(3)] by blast
  show ?thesis using assms(1) r4 r5 r6 r7 by (simp add: run_all_checks_def)
qed

lemma run_all_checks_names:
  assumes "ps \<noteq> []" "run_all_checks ps c = Inr rs"
  shows "map check rs = check_names"
proof -
  from run_all_checks_Inr [OF assms] obtain r4 r5 r6 r7 where
    r: "check_frequency_cap ps c = Inr r4" "check_content_exclusions ps c = Inr r5"
       "check_landing_page ps c = Inr r6" "check_taxonomy ps c = Inr r7"
    and rs: "rs = [check_spec_compliance ps c, check_tracking ps c, check_targeting ps c,
             r4, r5, r6, r7, check_floodlight_tags ps c]"
    by blast
  have "check r7 = ''Taxonomy Validation''"
    using r(4) unfolding check_taxonomy_def Let_def by (rule taxonomy_loop_check)
  moreover have "check (check_targeting ps c) = ''Targeting''"
    by (simp add: check_targeting_def Let_def)
  ultimately show ?thesis
    using frequency_cap_check [OF r(1)] content_exclusions_check [OF r(2)] landing_page_check [OF r(3)]
    by (simp add: rs check_names_def check_spec_compliance_def check_tracking_def check_floodlight_tags_def)
qed

text \<open>
  Claim C3. On an empty payload list \<open>run_all_checks\<close> returns the single result
  Spec Compliance, Fail, \<open>No payloads to QA.\<close>, whatever the campaign. On a non-empty
  list of payloads and a typed campaign it returns eight results whose names are the
  eight checks in their declaration order, Spec Compliance first; and whenever it returns
  on a non-empty list, the result has that shape.
\<close>

theorem run_all_checks_shape:
  "run_all_checks [] c
     = Inr [\<lparr>check = ''Spec Compliance'', result = ''Fail'', details = ''No payloads to QA.''\<rparr>]
   \<and> (ps \<noteq> [] \<and> campaign_typed c \<and> list_all payload_typed ps
        \<longrightarrow> (\<exists>rs. run_all_checks ps c = Inr rs \<and> length rs = 8 \<and> map check rs = check_names))
   \<and> (\<forall>rs. ps \<noteq> [] \<and> run_all_checks ps c = Inr rs \<longrightarrow> length rs = 8 \<and> map check rs = check_names)"
proof (intro conjI impI allI)
  show "run_all_checks [] c
     = Inr [\<lparr>check = ''Spec Compliance'', result = ''Fail'', details = ''No payloads to QA.''\<rparr>]"
    by (simp add: run_all_checks_def)
next
  assume a: "ps \<noteq> [] \<and> campaign_typed c \<and> list_all payload_typed ps"
  then obtain rs where rs: "run_all_checks ps c = Inr rs"
    using run_all_checks_typed [of ps c] by blast
  have "map check rs = check_names" using a rs run_all_checks_names by blast
  moreover from this have "length rs = 8"
    using length_map [of check rs] by (simp add: check_names_def)
  ultimately show "\<exists>rs. run_all_checks ps c = Inr rs \<and> length rs = 8 \<and> map check rs = check_names"
    using rs by blast
next
  fix rs assume a: "ps \<noteq> [] \<and> run_all_checks ps c = Inr rs"
  then have n: "map check rs = check_names" using run_all_checks_names by blast
  then show "length rs = 8" using length_map [of check rs] by (simp add: check_names_def)
  show "map check rs = check_names" by (rule n)
qed

theorem run_all_checks_shape_witness:
  "\<exists>rs. run_all_checks [stub_payload] sponsorship_campaign = Inr rs \<and> length rs = 8
      \<and> map check rs = check_names"
  using run_all_checks_shape [of sponsorship_campaign "[stub_payload]"]
  by (simp add: campaign_typed_def str_field_def int_field_def payload_typed_def
        stub_payload_def new_payload_def sponsorship_campaign_def)

text \<open>
  Claim C8. For a non-empty payload list and a campaign, the fifth result of
  \<open>run_all_checks\<close> is the Content Exclusions check. Its verdict is Needs Review exactly
  when the campaign name contains \<open>BES\<close> or \<open>Sponsorship\<close>, and then its details
  contain \<open>S&P review\<close>; otherwise the verdict is Pass. The campaign name is the empty
  string when the campaign has none.
\<close>

theorem content_exclusions_verdict:
  assumes "ps \<noteq> []" "campaign_typed c" "list_all payload_typed ps"
    and "dict_get c ''campaign_name'' (PStr '''') = PStr nm"
  shows "\<exists>rs. run_all_checks ps c = Inr rs \<and> length rs = 8
      \<and> check (rs ! 4) = ''Content Exclusions''
      \<and> (result (rs ! 4) = ''Needs Review''
            \<longleftrightarrow> str_contains ''BES'' nm \<or> str_contains ''Sponsorship'' nm)
      \<and> (result (rs ! 4) = ''Needs Review'' \<longrightarrow> str_contains ''S&P review'' (details (rs ! 4)))
      \<and> (result (rs ! 4) \<noteq> ''Needs Review'' \<longrightarrow> result (rs ! 4) = ''Pass'')"
proof -
  from run_all_checks_typed [OF assms(1-3)] obtain r4 r5 r6 r7 where
    rs: "run_all_checks ps c =
           Inr [check_spec_compliance ps c, check_tracking ps c, check_targeting ps c,
                r4, r5, r6, r7, check_floodlight_tags ps c]"
    and r5: "check_content_exclusions ps c = Inr r5"
    by blast
  have "r5 = (if str_contains ''BES'' nm \<or> str_contains ''Sponsorship'' nm
          then \<lparr>check = ''Content Exclusions'', result = ''Needs Review'',
                 details = ''Sponsorship requires S&P review.''\<rparr>
          else \<lparr>check = ''Content Exclusions'', result = ''Pass'',
                 details = ''Standard exclusions applied.''\<rparr>)"
    using r5 content_exclusions_str [OF assms(4), of ps] by simp
  then have "check r5 = ''Content Exclusions''
      \<and> (result r5 = ''Needs Review'' \<longleftrightarrow> str_contains ''BES'' nm \<or> str_contains ''Sponsorship'' nm)
      \<and> (result r5 = ''Needs Review'' \<longrightarrow> str_contains ''S&P review'' (details r5))
      \<and> (result r5 \<noteq> ''Needs Review'' \<longrightarrow> result r5 = ''Pass'')"
    by (cases "str_contains ''BES'' nm \<or> str_contains ''Sponsorship'' nm") simp_all
  then show ?thesis using rs by simp
qed

theorem content_exclusions_verdict_witness:
  "\<exists>rs. run_all_checks [stub_payload] sponsorship_campaign = Inr rs
      \<and> result (rs ! 4) = ''Needs Review'' \<and> str_contains ''S&P review'' (details (rs ! 4))"
proof -
  have a: "[stub_payload] \<noteq> []" by simp
  have b: "campaign_typed sponsorship_campaign"
    by (simp add: campaign_typed_def str_field_def int_field_def sponsorship_campaign_def)
  have c: "list_all payload_typed [stub_payload]"
    by (simp add: payload_typed_def str_field_def stub_payload_def new_payload_def)
  have d: "dict_get sponsorship_campaign ''campaign_name'' (PStr '''') = PStr ''ESP_Sports_Sponsorship_US''"
    by (simp add: dict_get_def sponsorship_campaign_def)
  have e: "str_contains ''Sponsorship'' ''ESP_Sports_Sponsorship_US''" by simp
  show ?thesis using content_exclusions_verdict [OF a b c d] e by auto
qed

lemma landing_default:
  assumes "c ''landing_page'' = None"
  shows "run_all_checks ps (c(''landing_page'' \<mapsto> PStr ''https://disneyplus.com'')) = run_all_checks ps c"
proof -
  let ?c = "c(''landing_page'' \<mapsto> PStr ''https://disneyplus.com'')"
  have other: "\<And>k fb. k \<noteq> ''landing_page'' \<Longrightarrow> dict_get ?c k fb = dict_get c k fb"
    by (simp add: dict_get_def)
  have lp: "dict_get ?c ''landing_page'' (PStr ''https://disneyplus.com'')
          = dict_get c ''landing_page'' (PStr ''https://disneyplus.com'')"
    using assms by (simp add: dict_get_def)
  have 1: "check_frequency_cap ps ?c = check_frequency_cap ps c"
    by (simp add: check_frequency_cap_def other)
  have 2: "check_content_exclusions ps ?c = check_content_exclusions ps c"
    by (simp add: check_content_exclusions_def other)
  have 3: "check_landing_page ps ?c = check_landing_page ps c"
    unfolding check_landing_page_def lp ..
  have 4: "check_targeting ps ?c = check_targeting ps c"
    by (simp add: check_targeting_def other)
  have 5: "check_taxonomy ps ?c = check_taxonomy ps c"
    by (simp add: check_taxonomy_def)
  have 6: "check_spec_compliance ps ?c = check_spec_compliance ps c"
    by (simp add: check_spec_compliance_def)
  have 7: "check_tracking ps ?c = check_tracking ps c"
    by (simp add: check_tracking_def)
  have 8: "check_floodlight_tags ps ?c = check_floodlight_tags ps c"
    by (simp add: check_floodlight_tags_def)
  show ?thesis
    unfolding run_all_checks_def 1 2 3 4 5 6 7 8 ..
qed

text \<open>
  Claim C9. For a non-empty payload list and a campaign, the sixth result of
  \<open>run_all_checks\<close> is the Landing Page check. Its verdict is Fail exactly when the
  campaign has a landing page that does not start with \<open>https://\<close>, and then its
  details contain \<open>Non-HTTPS URL\<close>; otherwise the verdict is Pass. A campaign without a
  landing page is checked as if its landing page were \<open>https://disneyplus.com\<close>, and
  passes.
\<close>

theorem landing_page_verdict:
  assumes "ps \<noteq> []" "campaign_typed c" "list_all payload_typed ps"
  shows "\<exists>rs. run_all_checks ps c = Inr rs \<and> length rs = 8
      \<and> check (rs ! 5) = ''Landing Page''
      \<and> (result (rs ! 5) = ''Fail''
            \<longleftrightarrow> (\<exists>u. c ''landing_page'' = Some (PStr u) \<and> \<not> prefix ''https://'' u))
      \<and> (result (rs ! 5) = ''Fail'' \<longrightarrow> str_contains ''Non-HTTPS URL'' (details (rs ! 5)))
      \<and> (result (rs ! 5) \<noteq> ''Fail'' \<longrightarrow> result (rs ! 5) = ''Pass'')
      \<and> (c ''landing_page'' = None \<longrightarrow>
            result (rs ! 5) = ''Pass''
            \<and> run_all_checks ps (c(''landing_page'' \<mapsto> PStr ''https://disneyplus.com'')) = Inr rs)"
proof -
  from run_all_checks_typed [OF assms(1-3)] obtain r4 r5 r6 r7 where
    rs: "run_all_checks ps c =
           Inr [check_spec_compliance ps c, check_tracking ps c, check_targeting ps c,
                r4, r5, r6, r7, check_floodlight_tags ps c]"
    and r6: "check_landing_page ps c = Inr r6"
    by blast
  obtain u where u: "dict_get c ''landing_page'' (PStr ''https://disneyplus.com'') = PStr u"
    using campaign_typed_landing [OF assms(2)] by (rule str_field_get)
  have r6_eq: "r6 = (if prefix ''https://'' u
          then \<lparr>check = ''Landing Page'', result = ''Pass'',
                 details = ''Click-through URLs act recursively.''\<rparr>
          else \<lparr>check = ''Landing Page'', result = ''Fail'',
                 details = ''Non-HTTPS URL provided: '' @ u\<rparr>)"
    using r6 landing_page_str [OF u, of ps] by simp
  have present: "(\<exists>v. c ''landing_page'' = Some (PStr v) \<and> \<not> prefix ''https://'' v)
                  \<longleftrightarrow> \<not> prefix ''https://'' u"
    using u by (cases "c ''landing_page''") (auto simp: dict_get_def)
  have absent: "c ''landing_page'' = None \<Longrightarrow> prefix ''https://'' u"
    using u by (auto simp: dict_get_def)
  have v: "check r6 = ''Landing Page''
      \<and> (result r6 = ''Fail'' \<longleftrightarrow> \<not> prefix ''https://'' u)
      \<and> (result r6 = ''Fail'' \<longrightarrow> str_contains ''Non-HTTPS URL'' (details r6))
      \<and> (result r6 \<noteq> ''Fail'' \<longrightarrow> result r6 = ''Pass'')"
    by (cases "prefix ''https://'' u") (simp_all add: r6_eq)
  have "c ''landing_page'' = None \<longrightarrow> result r6 = ''Pass''"
    using absent v by blast
  with v have "check r6 = ''Landing Page''
      \<and> (result r6 = ''Fail'' \<longleftrightarrow> (\<exists>v. c ''landing_page'' = Some (PStr v) \<and> \<not> prefix ''https://'' v))
      \<and> (result r6 = ''Fail'' \<longrightarrow> str_contains ''Non-HTTPS URL'' (details r6))
      \<and> (result r6 \<noteq> ''Fail'' \<longrightarrow> result r6 = ''Pass'')
      \<and> (c ''landing_page'' = None \<longrightarrow> result r6 = ''Pass'')"
    unfolding present by blast
  then have core: "check r6 = ''Landing Page''"
      "(result r6 = ''Fail'' \<longleftrightarrow> (\<exists>v. c ''landing_page'' = Some (PStr v) \<and> \<not> prefix ''https://'' v))"
      "(result r6 = ''Fail'' \<longrightarrow> str_contains ''Non-HTTPS URL'' (details r6))"
      "(result r6 \<noteq> ''Fail'' \<longrightarrow> result r6 = ''Pass'')"
      "(c ''landing_page'' = None \<longrightarrow> result r6 = ''Pass'')"
    by blast+
  let ?rs = "[check_spec_compliance ps c, check_tracking ps c, check_targeting ps c,
                r4, r5, r6, r7, check_floodlight_tags ps c]"
  have nth: "?rs ! 5 = r6" by simp
  have dflt: "c ''landing_page'' = None \<longrightarrow>
      result r6 = ''Pass''
      \<and> run_all_checks ps (c(''landing_page'' \<mapsto> PStr ''https://disneyplus.com'')) = Inr ?rs"
    using core(5) landing_default [of c ps] rs by metis
  show ?thesis
  proof (intro exI [of _ ?rs] conjI)
    show "run_all_checks ps c = Inr ?rs" by (rule rs)
    show "length ?rs = 8" by simp
    show "check (?rs ! 5) = ''Landing Page''" unfolding nth by (rule core(1))
    show "(result (?rs ! 5) = ''Fail'')
         = (\<exists>u. c ''landing_page'' = Some (PStr u) \<and> \<not> prefix ''https://'' u)"
      unfolding nth by (rule core(2))
    show "result (?rs ! 5) = ''Fail'' \<longrightarrow> str_contains ''Non-HTTPS URL'' (details (?rs ! 5))"
      unfolding nth by (rule core(3))
    show "result (?rs ! 5) \<noteq> ''Fail'' \<longrightarrow> result (?rs ! 5) = ''Pass''"
      unfolding nth by (rule core(4))
    show "c ''landing_page'' = None \<longrightarrow>
      result (?rs ! 5) = ''Pass''
      \<and> run_all_checks ps (c(''landing_page'' \<mapsto> PStr ''https://disneyplus.com'')) = Inr ?rs"
      unfolding nth by (rule dflt)
  qed
qed

theorem landing_page_verdict_witness:
  "(\<exists>rs. run_all_checks [stub_payload] http_campaign = Inr rs
      \<and> result (rs ! 5) = ''Fail'' \<and> str_contains ''Non-HTTPS URL'' (details (rs ! 5)))
   \<and> (\<exists>rs. run_all_checks [stub_payload] sponsorship_campaign = Inr rs
      \<and> result (rs ! 5) = ''Pass'')"
proof -
  have a: "[stub_payload] \<noteq> []" by simp
  have b: "campaign_typed http_campaign"
    by (simp add: campaign_typed_def str_field_def int_field_def http_campaign_def)
  have b': "campaign_typed sponsorship_campaign"
    by (simp add: campaign_typed_def str_field_def int_field_def sponsorship_campaign_def)
  have c: "list_all payload_typed [stub_payload]"
    by (simp add: payload_typed_def str_field_def stub_payload_def new_payload_def)
  have d: "http_campaign ''landing_page'' = Some (PStr ''http://disney.com'')"
    by (simp add: http_campaign_def)
  have d': "sponsorship_campaign ''landing_page'' = None"
    by (simp add: sponsorship_campaign_def)
  have e: "\<not> prefix ''https://'' ''http://disney.com''" by simp
  have 1: "\<exists>rs. run_all_checks [stub_payload] http_campaign = Inr rs
      \<and> result (rs ! 5) = ''Fail'' \<and> str_contains ''Non-HTTPS URL'' (details (rs ! 5))"
    using landing_page_verdict [OF a b c] d e by auto
  have 2: "\<exists>rs. run_all_checks [stub_payload] sponsorship_campaign = Inr rs
      \<and> result (rs ! 5) = ''Pass''"
    using landing_page_verdict [OF a b' c] d' by auto
  from 1 2 show ?thesis by (rule conjI)
qed

section \<open>Absent fields\<close>

lemma process_ticket_unrecognised:
  assumes "dict_get t ''request_type'' (PStr '''') = PStr r"
  shows "process_ticket clk t c = Inr [] \<longleftrightarrow> \<not> recognised r"
  unfolding process_ticket_str [OF assms] recognised_def Let_def
  by (simp add: handle_new_campaign_setup_def handle_creative_rotation_def
        handle_budget_change_def handle_new_line_item_def handle_targeting_update_def
        handle_tag_implementation_def Let_def)

text \<open>
  \<open>process_ticket\<close> raises exactly when the request type is \<open>None\<close>, a boolean or an
  integer, and the landing page check raises exactly when the landing page is not a
  string.
\<close>

lemma process_ticket_raises:
  "(\<exists>e. process_ticket clk t c = Inl e)
     \<longleftrightarrow> (\<exists>v. t ''request_type'' = Some v \<and> v \<in> {PNone} \<union> range PBool \<union> range PInt)"
proof (cases "dict_get t ''request_type'' (PStr '''')")
  case PNone
  then show ?thesis
    by (auto simp: process_ticket_def py_or_def dict_get_def split: option.splits)
next
  case (PBool b)
  then show ?thesis
    by (auto simp: process_ticket_def py_or_def dict_get_def split: option.splits)
next
  case (PInt i)
  then show ?thesis
    by (auto simp: process_ticket_def py_or_def dict_get_def split: option.splits)
next
  case (PStr s)
  then show ?thesis
    by (auto simp: process_ticket_str dict_get_def split: option.splits)
next
  case (PList xs)
  then have "\<exists>ps. process_ticket clk t c = Inr ps"
    by (simp add: process_ticket_def py_or_Inr Let_def split: bool.split)
  with PList show ?thesis
    by (auto simp: dict_get_def split: option.splits)
qed

lemma landing_page_raises:
  "(\<exists>e. check_landing_page ps c = Inl e) \<longleftrightarrow> (\<exists>v. c ''landing_page'' = Some v \<and> \<not> is_str v)"
proof (cases "c ''landing_page''")
  case None
  then show ?thesis by (simp add: check_landing_page_def dict_get_def)
next
  case (Some v)
  then show ?thesis
    by (cases v) (simp_all add: check_landing_page_def dict_get_def split: bool.split)
qed

text \<open>
  What holds of the claim: when the request type is a string or the key is missing, and
  the campaign is typed, the router and the checks return, also one after the other; a
  missing landing page is checked as \<open>https://disneyplus.com\<close>; a request type
  that is not recognised gives the empty payload list.
\<close>

lemma route_and_evaluate_return:
  assumes "str_field t ''request_type''" "campaign_typed c" "list_all payload_typed ps"
  shows "(\<exists>out rs. process_ticket clk t c = Inr out \<and> run_all_checks out c = Inr rs)
     \<and> (\<exists>rs. run_all_checks ps c = Inr rs)"
proof (intro conjI)
  have total: "\<exists>rs. run_all_checks qs c = Inr rs" if "list_all payload_typed qs" for qs
  proof (cases "qs = []")
    case True
    then show ?thesis by (simp add: run_all_checks_def)
  next
    case False
    from run_all_checks_typed [OF False assms(2) that] show ?thesis by blast
  qed
  obtain r where r: "dict_get t ''request_type'' (PStr []) = PStr r"
    using assms(1) by (rule str_field_get)
  then obtain out where out: "process_ticket clk t c = Inr out"
    by (simp add: process_ticket_str)
  have "list_all payload_typed out"
    using process_ticket_invariant [OF out] by (simp add: list_all_iff)
  from total [OF this] out
  show "\<exists>out rs. process_ticket clk t c = Inr out \<and> run_all_checks out c = Inr rs"
    by blast
  show "\<exists>rs. run_all_checks ps c = Inr rs"
    using assms(3) by (rule total)
qed

lemma landing_page_absent:
  assumes "c ''landing_page'' = None"
  shows "check_landing_page ps c
           = check_landing_page ps (c(''landing_page'' \<mapsto> PStr ''https://disneyplus.com''))
         \<and> (\<exists>r. check_landing_page ps c = Inr r \<and> result r = ''Pass'')"
  using assms by (simp add: check_landing_page_def dict_get_def)

text \<open>
  The ticket that the orchestrator builds from a record without a request type holds
  \<open>None\<close> under the key, so the default of \<open>get\<close> in \<open>process_ticket\<close> is not taken
  and the substring test raises.
\<close>

lemma tkt_mapped_request_type:
  "dict_get (tkt_mapped ticket_fields) ''request_type'' (PStr []) = dict_get ticket_fields ''request_type'' PNone"
  by (simp add: tkt_mapped_def dict_get_def)

lemma tkt_mapped_absent_raises:
  assumes "ticket_fields ''request_type'' = None"
  shows "process_ticket clk (tkt_mapped ticket_fields) c = Inl TypeError"
proof -
  have "dict_get (tkt_mapped ticket_fields) ''request_type'' (PStr []) = PNone"
    unfolding tkt_mapped_request_type using assms by (simp add: dict_get_def)
  then show ?thesis by (simp add: process_ticket_def py_or_def)
qed

lemma tkt_mapped_str_returns:
  assumes "ticket_fields ''request_type'' = Some (PStr r)"
  shows "\<exists>out. process_ticket clk (tkt_mapped ticket_fields) c = Inr out"
proof -
  have "dict_get (tkt_mapped ticket_fields) ''request_type'' (PStr []) = PStr r"
    unfolding tkt_mapped_request_type using assms by (simp add: dict_get_def)
  then show ?thesis by (simp add: process_ticket_str)
qed

text \<open>
  Claim C7. The router and the checks return a result and never raise, an absent field
  being resolved by its default. The code does not do this for an absent request type:
  on the ticket that the orchestrator builds from a record with a platform and a
  campaign and no request type, \<open>process_ticket\<close> raises \<open>TypeError\<close>, for every
  clock and campaign.
\<close>

theorem process_ticket_absent_request_type:
  "process_ticket clk (tkt_mapped untyped_request_fields) c = Inl TypeError"
proof -
  have "untyped_request_fields ''request_type'' = None"
    by (simp add: untyped_request_fields_def)
  then show ?thesis by (rule tkt_mapped_absent_raises)
qed

end
